theory Spec2Isabelle
  imports Main "HOL-Library.Word"
begin

section \<open>The output buffer of \<open>optix/sutils/cuda_output_buffer.py\<close>\<close>

text \<open>
  The module defines one class, \<open>CudaOutputBuffer\<close>, whose instances own a host array,
  a device array and an OpenGL buffer object, and an enumeration of four buffer types.
  The class is modelled as a state record (the slots of the instance together with the
  part of the outside world its methods touch), and each method as a function from
  states to an outcome and a state. A Python exception leaves the mutations made before
  it in place, so the state is returned on both outcomes.
\<close>

subsection \<open>Values\<close>

datatype CudaOutputBufferType = CUDA_DEVICE | GL_INTEROP | ZERO_COPY | CUDA_P2P

text \<open>A numpy dtype: its name and the size of one element in bytes.\<close>

datatype dtype = DType (dtype_name: string) (itemsize: nat)

definition float64 :: dtype where
  "float64 = DType ''float64'' 8"

text \<open>
  A numpy scalar class (a subclass of \<open>np.generic\<close>, such as \<open>np.float32\<close>) and the dtype
  that \<open>np.dtype\<close> makes of it. A pixel format, as the setter accepts and stores it, is a
  dtype object or a scalar class.
\<close>

datatype scalar_class = ScalarClass (class_name: string) (class_dtype: dtype)

datatype format = FmtDtype dtype | FmtClass scalar_class

text \<open>
  \<open>np.dtype(x)\<close> for what the pixel-format slot can hold: \<open>None\<close> gives \<open>float64\<close>.
\<close>

fun np_dtype :: "format option \<Rightarrow> dtype" where
  "np_dtype None = float64"
| "np_dtype (Some (FmtDtype d)) = d"
| "np_dtype (Some (FmtClass k)) = class_dtype k"

text \<open>
  \<open>value != cur\<close> for a pixel format \<open>value\<close> and the content \<open>cur\<close> of the slot. A dtype
  object compares by converting the other side with \<open>np.dtype\<close>, also when the dtype is
  the right operand and the left one is a class, and \<open>np.dtype(None)\<close> is \<open>float64\<close>:
  so \<open>np.dtype('float64') != None\<close> is false. Two classes, and a class and \<open>None\<close>,
  compare by identity.
\<close>

fun format_ne :: "format \<Rightarrow> format option \<Rightarrow> bool" where
  "format_ne (FmtDtype d) cur = (d \<noteq> np_dtype cur)"
| "format_ne (FmtClass k) None = True"
| "format_ne (FmtClass k) (Some (FmtDtype c)) = (c \<noteq> class_dtype k)"
| "format_ne (FmtClass k) (Some (FmtClass k')) = (k \<noteq> k')"

text \<open>\<open>cp.cuda.Device(i)\<close>, and a stream (\<open>cp.cuda.Stream.null\<close> or a created one).\<close>

datatype Device = Device (device_id: int)

datatype Stream = NullStream | Stream nat

text \<open>
  An array object (\<open>numpy.ndarray\<close> on the host, \<open>cupy.ndarray\<close> on the device):
  the address of its first byte, its shape and its dtype.
\<close>

record ndarray =
  data_ptr :: nat
  shape :: "int \<times> int"
  arr_dtype :: dtype

definition nbytes :: "ndarray \<Rightarrow> nat" where
  "nbytes a = nat (fst (shape a) * snd (shape a)) * itemsize (arr_dtype a)"

text \<open>
  Python objects, as far as the methods distinguish them: arguments whose type the code
  tests at run time, the values bound to module-level names, and what a property returns.
\<close>

datatype pyobj =
    ObjNone
  | ObjInt int
  | ObjStr string
  | ObjDtype dtype
  | ObjScalarClass scalar_class
  | ObjBufferType CudaOutputBufferType
  | ObjDevice Device
  | ObjStream Stream
  | ObjClass string
  | ObjModule string
  | ObjFunction string
  | ObjConst string

fun type_of :: "pyobj \<Rightarrow> pyobj" where
  "type_of ObjNone = ObjClass ''NoneType''"
| "type_of (ObjInt _) = ObjClass ''int''"
| "type_of (ObjStr _) = ObjClass ''str''"
| "type_of (ObjDtype _) = ObjClass ''numpy.dtype''"
| "type_of (ObjScalarClass _) = ObjClass ''type''"
| "type_of (ObjBufferType _) = ObjClass ''CudaOutputBufferType''"
| "type_of (ObjDevice _) = ObjClass ''cupy.cuda.Device''"
| "type_of (ObjStream _) = ObjClass ''cupy.cuda.Stream''"
| "type_of (ObjClass _) = ObjClass ''type''"
| "type_of (ObjModule _) = ObjClass ''module''"
| "type_of (ObjFunction _) = ObjClass ''function''"
| "type_of (ObjConst _) = ObjClass ''int''"

text \<open>
  The exceptions the module can raise. \<open>AssertionError v\<close> is a failed
  \<open>assert cond, v\<close>. \<open>NotImplementedError b\<close> stands for the exception whose message
  is \<open>Buffer type {b} has not been implemented yet.\<close>: it carries the object the message
  names. \<open>InvalidFormat\<close> is the failure of the format resolver, which lives in another
  module of the repository (see \<open>vtype_to_dtype\<close>).
\<close>

datatype error =
    NameError string
  | AttributeError string
  | AssertionError pyobj
  | TypeError string
  | ValueError string
  | OverflowError
  | NotImplementedError pyobj
  | GLError string
  | InvalidFormat string

subsection \<open>State\<close>

text \<open>
  The first ten fields are the slots of the instance (\<open>_pixel_format\<close> is
  \<open>slot_pixel_format\<close>, and so on; \<open>None\<close> is Python's \<open>None\<close>). The remaining fields
  are the world: the device selected by \<open>Device.use()\<close>, host and device memory with
  their allocation tables (address and size in bytes, newest first; a bump allocator that
  never reuses an address), the OpenGL buffer objects, and the number of stream
  synchronisations performed.
\<close>

record state =
  slot_pixel_format :: "format option"
  slot_buffer_type :: "CudaOutputBufferType option"
  slot_width :: "int option"
  slot_height :: "int option"
  slot_device :: "Device option"
  slot_device_idx :: "int option"
  slot_stream :: "Stream option"
  slot_host_buffer :: "ndarray option"
  slot_device_buffer :: "ndarray option"
  slot_pbo :: "nat option"
  current_device :: "int option"
  host_mem :: "nat \<Rightarrow> 8 word"
  host_brk :: nat
  host_allocs :: "(nat \<times> nat) list"
  device_mem :: "nat \<Rightarrow> 8 word"
  device_brk :: nat
  device_allocs :: "(nat \<times> nat) list"
  gl_names :: nat
  gl_array_buffer :: nat
  gl_data :: "nat \<Rightarrow> 8 word list"
  gl_deleted :: "nat list"
  stream_syncs :: nat

subsection \<open>Statements: state and exceptions\<close>

type_synonym 'a prog = "state \<Rightarrow> (error + 'a) \<times> state"

definition return :: "'a \<Rightarrow> 'a prog" where
  "return a s = (Inr a, s)"

definition raise :: "error \<Rightarrow> 'a prog" where
  "raise e s = (Inl e, s)"

definition bnd :: "'a prog \<Rightarrow> ('a \<Rightarrow> 'b prog) \<Rightarrow> 'b prog" where
  "bnd m f s = (case m s of (Inl e, s') \<Rightarrow> (Inl e, s') | (Inr a, s') \<Rightarrow> f a s')"

definition seq :: "unit prog \<Rightarrow> 'a prog \<Rightarrow> 'a prog" where
  "seq m k = bnd m (\<lambda>_. k)"

definition gets :: "(state \<Rightarrow> 'a) \<Rightarrow> 'a prog" where
  "gets f s = (Inr (f s), s)"

definition modify :: "(state \<Rightarrow> state) \<Rightarrow> unit prog" where
  "modify f s = (Inr (), f s)"

subsection \<open>Names\<close>

text \<open>
  A name that a method neither assigns nor takes as a parameter is looked up in the
  module's globals and then in the builtins when the statement runs, and the lookup
  raises \<open>NameError\<close> when both miss. \<open>module_globals\<close> lists what the module binds at
  its top level: its imports and its two classes. \<open>builtin_names\<close> lists the builtins
  the methods use.
\<close>

definition module_globals :: "(string \<times> pyobj) list" where
  "module_globals =
    [(''enum'', ObjModule ''enum''),
     (''re'', ObjModule ''re''),
     (''np'', ObjModule ''numpy''),
     (''cp'', ObjModule ''cupy''),
     (''glGenBuffers'', ObjFunction ''glGenBuffers''),
     (''glBindBuffer'', ObjFunction ''glBindBuffer''),
     (''glBufferData'', ObjFunction ''glBufferData''),
     (''GL_ARRAY_BUFFER'', ObjConst ''GL_ARRAY_BUFFER''),
     (''GL_STREAM_DRAW'', ObjConst ''GL_STREAM_DRAW''),
     (''vtype_to_dtype'', ObjFunction ''vtype_to_dtype''),
     (''CudaOutputBufferType'', ObjClass ''CudaOutputBufferType''),
     (''CudaOutputBuffer'', ObjClass ''CudaOutputBuffer'')]"

definition builtin_names :: "string list" where
  "builtin_names =
    [''setattr'', ''isinstance'', ''issubclass'', ''str'', ''int'', ''property'',
     ''NotImplementedError'']"

definition load_global :: "string \<Rightarrow> pyobj prog" where
  "load_global n =
    (case map_of module_globals n of
       Some v \<Rightarrow> return v
     | None \<Rightarrow>
        if n \<in> set builtin_names then return (ObjFunction n) else raise (NameError n))"

text \<open>Calling a module-level function: the name is resolved, then the call runs.\<close>

definition call_global :: "string \<Rightarrow> 'a prog \<Rightarrow> 'a prog" where
  "call_global n m = bnd (load_global n) (\<lambda>_. m)"

subsection \<open>The libraries the module calls\<close>

text \<open>
  numpy, cupy and OpenGL are modelled by their effect on the world. A call that the
  library can refuse for lack of a resource (memory, a device, a GL context) succeeds
  here: the theorems are about what the class does when its collaborators work.
\<close>

definition Device_use :: "Device \<Rightarrow> unit prog" where
  "Device_use d = modify (\<lambda>s. s\<lparr>current_device := Some (device_id d)\<rparr>)"

definition Stream_synchronize :: "Stream \<Rightarrow> unit prog" where
  "Stream_synchronize st = modify (\<lambda>s. s\<lparr>stream_syncs := stream_syncs s + 1\<rparr>)"

text \<open>
  \<open>np.int32(np.asscalar(value))\<close>. The \<open>int\<close> argument of the model stands for a value
  that \<open>np.asscalar\<close> accepts, a numpy scalar or a one-element array, which it turns
  into the Python integer. \<open>np.int32\<close> (of the numpy that has \<open>np.asscalar\<close>) converts
  the integer through a C \<open>long\<close> of 64 bits and keeps the low 32 bits, as a signed
  number: \<open>np.int32(2**31)\<close> is \<open>-2147483648\<close> and \<open>np.int32(2**32 + 4)\<close> is 4. An
  integer that does not fit the \<open>long\<close> raises \<open>OverflowError\<close>.
\<close>

definition wrap32 :: "int \<Rightarrow> int" where
  "wrap32 v = (v + 2 ^ 31) mod 2 ^ 32 - 2 ^ 31"

definition np_int32 :: "int \<Rightarrow> int prog" where
  "np_int32 v =
    (if - (2 ^ 63) \<le> v \<and> v < 2 ^ 63 then return (wrap32 v) else raise OverflowError)"

text \<open>
  \<open>np.empty\<close> and \<open>cp.empty\<close> reserve a fresh region and leave its bytes as they are.
  Their \<open>dtype\<close> argument goes through \<open>np.dtype\<close>, so \<open>dtype=None\<close> means \<open>float64\<close>.
\<close>

definition np_empty :: "int option \<times> int option \<Rightarrow> format option \<Rightarrow> ndarray prog" where
  "np_empty shp dt =
    (case shp of
       (Some w, Some h) \<Rightarrow>
         if w < 0 \<or> h < 0 then raise (ValueError ''negative dimensions are not allowed'')
         else
           bnd (gets host_brk) (\<lambda>p.
           let a = \<lparr>data_ptr = p, shape = (w, h), arr_dtype = np_dtype dt\<rparr> in
           seq (modify (\<lambda>s. s\<lparr>host_brk := p + nbytes a,
                                host_allocs := (p, nbytes a) # host_allocs s\<rparr>))
               (return a))
     | _ \<Rightarrow> raise (TypeError ''an integer is required''))"

definition cp_empty :: "int option \<times> int option \<Rightarrow> format option \<Rightarrow> ndarray prog" where
  "cp_empty shp dt =
    (case shp of
       (Some w, Some h) \<Rightarrow>
         if w < 0 \<or> h < 0 then raise (ValueError ''negative dimensions are not allowed'')
         else
           bnd (gets device_brk) (\<lambda>p.
           let a = \<lparr>data_ptr = p, shape = (w, h), arr_dtype = np_dtype dt\<rparr> in
           seq (modify (\<lambda>s. s\<lparr>device_brk := p + nbytes a,
                                device_allocs := (p, nbytes a) # device_allocs s\<rparr>))
               (return a))
     | _ \<Rightarrow> raise (TypeError ''an integer is required''))"

text \<open>\<open>cp.cuda.runtime.memcpy(dst, src, n, memcpyDeviceToHost)\<close>.\<close>

definition memcpyDeviceToHost :: "nat \<Rightarrow> nat \<Rightarrow> nat \<Rightarrow> unit prog" where
  "memcpyDeviceToHost dst src n =
    modify (\<lambda>s. s\<lparr>host_mem :=
      (\<lambda>a. if dst \<le> a \<and> a < dst + n then device_mem s (src + (a - dst)) else host_mem s a)\<rparr>)"

text \<open>
  OpenGL buffer objects. \<open>glGenBuffers(1)\<close> returns a name never returned before (names
  start at 1; 0 is "no buffer"). \<open>glBufferData\<close> gives the buffer bound to
  \<open>GL_ARRAY_BUFFER\<close> a copy of the host array's bytes.
\<close>

definition glGenBuffers :: "nat prog" where
  "glGenBuffers =
    bnd (gets gl_names) (\<lambda>n.
    seq (modify (\<lambda>s. s\<lparr>gl_names := n + 1\<rparr>)) (return (n + 1)))"

definition glBindBuffer :: "nat \<Rightarrow> unit prog" where
  "glBindBuffer b = modify (\<lambda>s. s\<lparr>gl_array_buffer := b\<rparr>)"

definition glBufferData :: "ndarray \<Rightarrow> unit prog" where
  "glBufferData a =
    bnd (gets gl_array_buffer) (\<lambda>b.
    if b = 0 then raise (GLError ''GL_INVALID_OPERATION'')
    else modify (\<lambda>s. s\<lparr>gl_data :=
           (gl_data s)(b := map (host_mem s) [data_ptr a ..< data_ptr a + nbytes a])\<rparr>))"

definition glDeleteBuffers :: "nat \<Rightarrow> unit prog" where
  "glDeleteBuffers b =
    modify (\<lambda>s. s\<lparr>gl_deleted := b # gl_deleted s,
                    gl_data := (gl_data s)(b := []),
                    gl_array_buffer := (if gl_array_buffer s = b then 0 else gl_array_buffer s)\<rparr>)"

text \<open>
  Modelled from the spec: \<open>vtype_to_dtype\<close> is defined in \<open>optix/sutils/vecmath.py\<close>,
  which is not among the sources. The specification describes it as the format resolver
  \<open>resolve(tag: string) -> concrete_storage_type\<close>, which "fails with InvalidFormat on
  unknown tag". The table of known tags is a parameter.
\<close>

definition vtype_to_dtype :: "(string \<times> dtype) list \<Rightarrow> string \<Rightarrow> dtype prog" where
  "vtype_to_dtype tbl tag =
    (case map_of tbl tag of None \<Rightarrow> raise (InvalidFormat tag) | Some d \<Rightarrow> return d)"

subsection \<open>The class \<open>CudaOutputBuffer\<close>\<close>

text \<open>
  The property setters. Each validates its argument, and only when the new value differs
  from the stored one stores it and sets both arrays to \<open>None\<close>.
\<close>

text \<open>
  \<open>assert isinstance(value, np.dtype) or issubclass(value, np.generic), value\<close>: a dtype
  object and a numpy scalar class pass; another class fails the assertion; for an object
  that is not a class \<open>issubclass\<close> raises \<open>TypeError\<close>.
\<close>

fun assert_dtype :: "pyobj \<Rightarrow> format prog" where
  "assert_dtype (ObjDtype d) = return (FmtDtype d)"
| "assert_dtype (ObjScalarClass k) = return (FmtClass k)"
| "assert_dtype (ObjClass c) = raise (AssertionError (ObjClass c))"
| "assert_dtype v = raise (TypeError ''issubclass() arg 1 must be a class'')"

definition set_pixel_format :: "(string \<times> dtype) list \<Rightarrow> pyobj \<Rightarrow> unit prog" where
  "set_pixel_format tbl value =
    bnd (case value of
           ObjStr tag \<Rightarrow>
             bnd (call_global ''vtype_to_dtype'' (vtype_to_dtype tbl tag))
                 (\<lambda>d. return (ObjDtype d))
         | _ \<Rightarrow> return value) (\<lambda>value.
    bnd (assert_dtype value) (\<lambda>value.
    bnd (gets slot_pixel_format) (\<lambda>cur.
    if format_ne value cur then
      modify (\<lambda>s. s\<lparr>slot_pixel_format := Some value,
                      slot_host_buffer := None,
                      slot_device_buffer := None\<rparr>)
    else return ())))"

definition set_buffer_type :: "pyobj \<Rightarrow> unit prog" where
  "set_buffer_type value =
    (case value of
       ObjBufferType b \<Rightarrow>
         bnd (gets slot_buffer_type) (\<lambda>cur.
         if Some b \<noteq> cur then
           modify (\<lambda>s. s\<lparr>slot_buffer_type := Some b,
                           slot_host_buffer := None,
                           slot_device_buffer := None\<rparr>)
         else return ())
     | _ \<Rightarrow> raise (AssertionError (type_of value)))"

definition set_width :: "int \<Rightarrow> unit prog" where
  "set_width value =
    (if \<not> value \<ge> 1 then raise (AssertionError (ObjInt value))
     else
       bnd (np_int32 value) (\<lambda>value.
       bnd (gets slot_width) (\<lambda>cur.
       if Some value \<noteq> cur then
         modify (\<lambda>s. s\<lparr>slot_width := Some value,
                         slot_host_buffer := None,
                         slot_device_buffer := None\<rparr>)
       else return ())))"

definition set_height :: "int \<Rightarrow> unit prog" where
  "set_height value =
    (if \<not> value \<ge> 1 then raise (AssertionError (ObjInt value))
     else
       bnd (np_int32 value) (\<lambda>value.
       bnd (gets slot_height) (\<lambda>cur.
       if Some value \<noteq> cur then
         modify (\<lambda>s. s\<lparr>slot_height := Some value,
                         slot_host_buffer := None,
                         slot_device_buffer := None\<rparr>)
       else return ())))"

text \<open>
  In \<open>_set_device_idx\<close> the branch for \<open>None\<close> assigns a local variable that is never
  read, so \<open>None\<close> reaches \<open>assert value >= 0\<close>, where the comparison raises
  \<open>TypeError\<close>.
\<close>

definition set_device_idx :: "int option \<Rightarrow> unit prog" where
  "set_device_idx value =
    (case value of
       None \<Rightarrow> raise (TypeError ''>= not supported between instances of NoneType and int'')
     | Some v \<Rightarrow>
         if \<not> v \<ge> 0 then raise (AssertionError (ObjInt v))
         else
           bnd (gets slot_device_idx) (\<lambda>cur.
           if Some v \<noteq> cur then
             modify (\<lambda>s. s\<lparr>slot_device_idx := Some v,
                             slot_device := Some (Device v),
                             slot_host_buffer := None,
                             slot_device_buffer := None\<rparr>)
           else return ()))"

text \<open>
  \<open>_set_stream\<close> tests the name \<open>stream\<close>, which is neither its parameter (that is
  \<open>value\<close>) nor bound by the module.
\<close>

definition set_stream :: "Stream option \<Rightarrow> unit prog" where
  "set_stream value =
    (let value = (case value of None \<Rightarrow> NullStream | Some st \<Rightarrow> st) in
     bnd (load_global ''stream'') (\<lambda>stream.
     case stream of
       ObjStream _ \<Rightarrow> modify (\<lambda>s. s\<lparr>slot_stream := Some value\<rparr>)
     | _ \<Rightarrow> raise (AssertionError (type_of stream))))"

text \<open>The property getters. \<open>_get_device_idx\<close> returns the slot \<open>_device\<close>.\<close>

definition get_pixel_format :: "format option prog" where
  "get_pixel_format = gets slot_pixel_format"

definition get_buffer_type :: "CudaOutputBufferType option prog" where
  "get_buffer_type = gets slot_buffer_type"

definition get_width :: "int option prog" where
  "get_width = gets slot_width"

definition get_height :: "int option prog" where
  "get_height = gets slot_height"

definition get_device_idx :: "pyobj prog" where
  "get_device_idx =
    gets (\<lambda>s. case slot_device s of None \<Rightarrow> ObjNone | Some d \<Rightarrow> ObjDevice d)"

definition get_stream :: "Stream option prog" where
  "get_stream = gets slot_stream"

text \<open>The object a buffer-type slot holds, as the error message names it.\<close>

definition buffer_type_obj :: "CudaOutputBufferType option \<Rightarrow> pyobj" where
  "buffer_type_obj b = (case b of None \<Rightarrow> ObjNone | Some t \<Rightarrow> ObjBufferType t)"

definition make_current :: "unit prog" where
  "make_current =
    bnd (gets slot_device) (\<lambda>d.
    case d of
      None \<Rightarrow> raise (AttributeError ''use'')
    | Some dev \<Rightarrow> Device_use dev)"

definition reallocate_buffers :: "unit prog" where
  "reallocate_buffers =
    bnd get_buffer_type (\<lambda>buffer_type.
    bnd get_pixel_format (\<lambda>dtype.
    bnd get_width (\<lambda>w.
    bnd get_height (\<lambda>h.
    if buffer_type = Some CUDA_DEVICE then
      bnd (np_empty (w, h) dtype) (\<lambda>hb.
      seq (modify (\<lambda>s. s\<lparr>slot_host_buffer := Some hb\<rparr>))
     (bnd (cp_empty (w, h) dtype) (\<lambda>db.
      seq (modify (\<lambda>s. s\<lparr>slot_device_buffer := Some db\<rparr>))
     (bnd (gets slot_pbo) (\<lambda>pbo.
      case pbo of
        None \<Rightarrow> return ()
      | Some b \<Rightarrow>
          seq (call_global ''glBindBuffer'' (glBindBuffer b))
         (seq (call_global ''glBufferData'' (glBufferData hb))
              (call_global ''glBindBuffer'' (glBindBuffer 0))))))))
    else raise (NotImplementedError (buffer_type_obj buffer_type))))))"

definition resize :: "int \<Rightarrow> int \<Rightarrow> unit prog" where
  "resize width height = seq (set_width width) (set_height height)"

definition copy_device_to_host :: "unit prog" where
  "copy_device_to_host =
    bnd (gets slot_host_buffer) (\<lambda>hb.
    case hb of
      None \<Rightarrow> raise (AttributeError ''__array_interface__'')
    | Some h \<Rightarrow>
        bnd (gets slot_device_buffer) (\<lambda>db.
        case db of
          None \<Rightarrow> raise (AttributeError ''data'')
        | Some d \<Rightarrow> memcpyDeviceToHost (data_ptr h) (data_ptr d) (nbytes h)))"

definition copy_host_to_pbo :: "unit prog" where
  "copy_host_to_pbo =
    bnd (gets slot_pbo) (\<lambda>pbo.
    case pbo of
      None \<Rightarrow> raise (TypeError ''glBindBuffer: buffer name required'')
    | Some b \<Rightarrow>
        seq (call_global ''glBindBuffer'' (glBindBuffer b))
       (seq (bnd (gets slot_host_buffer) (\<lambda>hb.
             case hb of
               None \<Rightarrow> raise (TypeError ''glBufferData: data required'')
             | Some h \<Rightarrow> call_global ''glBufferData'' (glBufferData h)))
            (call_global ''glBindBuffer'' (glBindBuffer 0))))"

text \<open>
  \<open>get_host_buffer\<close> and \<open>unmap\<close> read the name \<open>buffer_type\<close> without binding it
  (\<open>get_pbo\<close> and \<open>_reallocate_buffers\<close> start with \<open>buffer_type = self.buffer_type\<close>),
  so the name is looked up among the globals.
\<close>

definition get_host_buffer :: "ndarray option prog" where
  "get_host_buffer =
    bnd (load_global ''buffer_type'') (\<lambda>buffer_type.
    if buffer_type = ObjBufferType CUDA_DEVICE then
      seq copy_device_to_host (gets slot_host_buffer)
    else raise (NotImplementedError buffer_type))"

definition map_buffer :: "nat prog" where
  "map_buffer =
    seq make_current
   (seq (bnd (gets (\<lambda>s. slot_host_buffer s = None \<or> slot_device_buffer s = None)) (\<lambda>b.
         if b then reallocate_buffers else return ()))
   (bnd (gets slot_device_buffer) (\<lambda>db.
    case db of
      None \<Rightarrow> raise (AttributeError ''data'')
    | Some d \<Rightarrow> return (data_ptr d))))"

definition unmap :: "unit prog" where
  "unmap =
    seq make_current
   (bnd (load_global ''buffer_type'') (\<lambda>buffer_type.
    if buffer_type = ObjBufferType CUDA_DEVICE then
      bnd (gets slot_stream) (\<lambda>st.
      case st of
        None \<Rightarrow> raise (AttributeError ''synchronize'')
      | Some x \<Rightarrow> Stream_synchronize x)
    else raise (NotImplementedError buffer_type)))"

definition get_pbo :: "nat option prog" where
  "get_pbo =
    bnd get_buffer_type (\<lambda>buffer_type.
    seq make_current
   (seq (bnd (gets slot_pbo) (\<lambda>pbo.
         case pbo of
           None \<Rightarrow>
             bnd (call_global ''glGenBuffers'' glGenBuffers) (\<lambda>b.
             modify (\<lambda>s. s\<lparr>slot_pbo := Some b\<rparr>))
         | Some _ \<Rightarrow> return ()))
   (if buffer_type = Some CUDA_DEVICE then
      seq copy_device_to_host (seq copy_host_to_pbo (gets slot_pbo))
    else raise (NotImplementedError (buffer_type_obj buffer_type)))))"

text \<open>
  \<open>delete_pbo\<close> calls \<open>glDeleteBuffers\<close>, a name the module does not import.
\<close>

definition delete_pbo :: "unit prog" where
  "delete_pbo =
    bnd (gets slot_pbo) (\<lambda>pbo.
    case pbo of
      None \<Rightarrow> return ()
    | Some b \<Rightarrow>
        seq (call_global ''glBindBuffer'' (glBindBuffer 0))
       (seq (call_global ''glDeleteBuffers'' (glDeleteBuffers b))
            (modify (\<lambda>s. s\<lparr>slot_pbo := None\<rparr>))))"

text \<open>
  \<open>__init__\<close> sets every slot to \<open>None\<close>, runs the setters in the order device index,
  pixel format, buffer type, width, height, and allocates.
\<close>

definition clear_slots :: "state \<Rightarrow> state" where
  "clear_slots s =
    s\<lparr>slot_pixel_format := None, slot_buffer_type := None, slot_width := None,
      slot_height := None, slot_device := None, slot_device_idx := None,
      slot_stream := None, slot_host_buffer := None, slot_device_buffer := None,
      slot_pbo := None\<rparr>"

definition init ::
  "(string \<times> dtype) list \<Rightarrow> pyobj \<Rightarrow> pyobj \<Rightarrow> int \<Rightarrow> int \<Rightarrow> int option \<Rightarrow> unit prog" where
  "init tbl buffer_type pixel_format width height device_idx =
    seq (modify clear_slots)
   (seq (set_device_idx device_idx)
   (seq (set_pixel_format tbl pixel_format)
   (seq (set_buffer_type buffer_type)
   (seq (resize width height)
        reallocate_buffers))))"

subsection \<open>Concrete runs\<close>

text \<open>A world in which nothing has happened yet, and a table of three formats.\<close>

definition world0 :: state where
  "world0 =
    \<lparr>slot_pixel_format = None, slot_buffer_type = None, slot_width = None,
     slot_height = None, slot_device = None, slot_device_idx = None,
     slot_stream = None, slot_host_buffer = None, slot_device_buffer = None,
     slot_pbo = None, current_device = None,
     host_mem = (\<lambda>_. 0), host_brk = 0, host_allocs = [],
     device_mem = (\<lambda>_. 0), device_brk = 0, device_allocs = [],
     gl_names = 0, gl_array_buffer = 0, gl_data = (\<lambda>_. []), gl_deleted = [],
     stream_syncs = 0\<rparr>"

definition example_formats :: "(string \<times> dtype) list" where
  "example_formats =
    [(''float'', DType ''float32'' 4), (''uchar4'', DType ''uint8x4'' 4),
     (''float4'', DType ''float32x4'' 16)]"

text \<open>
  \<open>CudaOutputBuffer(CudaOutputBufferType.CUDA_DEVICE, np.dtype('float32'), 4, 3)\<close>, with
  numpy integers for 4 and 3; the same
  controller after \<open>buffer_type = GL_INTEROP\<close>, after \<open>buffer_type = ZERO_COPY\<close>,
  after \<open>buffer_type = CUDA_P2P\<close>, after \<open>resize(8, 2)\<close>, and after \<open>get_pbo()\<close>.
\<close>

definition example_controller :: state where
  "example_controller =
    snd (init example_formats (ObjBufferType CUDA_DEVICE) (ObjDtype (DType ''float32'' 4)) 4 3
           (Some 0) world0)"

definition example_interop :: state where
  "example_interop = snd (set_buffer_type (ObjBufferType GL_INTEROP) example_controller)"

definition example_zero_copy :: state where
  "example_zero_copy = snd (set_buffer_type (ObjBufferType ZERO_COPY) example_controller)"



definition example_with_pbo :: state where
  "example_with_pbo = snd (get_pbo example_controller)"

text \<open>
  \<open>CudaOutputBuffer(CudaOutputBufferType.CUDA_DEVICE, np.dtype('float64'), 4, 3)\<close>, and the
  scalar class \<open>np.float64\<close>.
\<close>

definition example_float64 :: state where
  "example_float64 =
    snd (init example_formats (ObjBufferType CUDA_DEVICE) (ObjDtype float64) 4 3 (Some 0) world0)"

definition np_float64 :: scalar_class where
  "np_float64 = ScalarClass ''float64'' float64"

subsection \<open>Controllers\<close>

text \<open>
  The states a caller can hold, whatever it has assigned and called since \<open>__init__\<close>
  returned: the buffer type, the width, the height and the device index are set; width
  and height are 32-bit integers (not necessarily positive, since \<open>np.int32\<close> wraps);
  the device index is not negative and \<open>_device\<close> is the device of that index; a buffer
  object that is present has a name \<open>glGenBuffers\<close> can return (not 0); and an array that
  is present has the stored width and height as its shape, the dtype that \<open>np.dtype\<close>
  makes of the pixel-format slot, and is backed by a region of its size. The pixel-format
  slot may be \<open>None\<close>: that is how \<open>__init__\<close> leaves it for a \<open>float64\<close> dtype.
  \<open>__init__\<close> establishes this whenever it returns, and every method keeps it
  whatever its arguments and its outcome (lemmas \<open>init_returns_controller\<close> and
  \<open>valid_controller_*\<close> below).
\<close>

definition dim_ok :: "int option \<Rightarrow> bool" where
  "dim_ok d = (case d of None \<Rightarrow> False | Some v \<Rightarrow> - (2 ^ 31) \<le> v \<and> v < 2 ^ 31)"

definition idx_ok :: "int option \<Rightarrow> bool" where
  "idx_ok d = (case d of None \<Rightarrow> False | Some v \<Rightarrow> 0 \<le> v)"

definition buffer_ok :: "state \<Rightarrow> (nat \<times> nat) list \<Rightarrow> ndarray option \<Rightarrow> bool" where
  "buffer_ok s allocs buf =
    (case buf of
       None \<Rightarrow> True
     | Some a \<Rightarrow>
         Some (fst (shape a)) = slot_width s \<and> Some (snd (shape a)) = slot_height s \<and>
         arr_dtype a = np_dtype (slot_pixel_format s) \<and>
         map_of allocs (data_ptr a) = Some (nbytes a))"

definition valid_controller :: "state \<Rightarrow> bool" where
  "valid_controller s =
    (slot_buffer_type s \<noteq> None \<and>
     dim_ok (slot_width s) \<and> dim_ok (slot_height s) \<and> idx_ok (slot_device_idx s) \<and>
     slot_device s = map_option Device (slot_device_idx s) \<and>
     slot_pbo s \<noteq> Some 0 \<and>
     buffer_ok s (host_allocs s) (slot_host_buffer s) \<and>
     buffer_ok s (device_allocs s) (slot_device_buffer s))"

text \<open>
  A controller as a configuration describes it: buffer type \<open>CUDA_DEVICE\<close>, the dtype
  \<open>f\<close> (that of the pixel-format slot), width \<open>w\<close> and height \<open>h\<close> of at least 1, and
  device index \<open>i\<close>.
\<close>

definition configured :: "state \<Rightarrow> dtype \<Rightarrow> int \<Rightarrow> int \<Rightarrow> int \<Rightarrow> bool" where
  "configured s f w h i =
    (valid_controller s \<and> slot_buffer_type s = Some CUDA_DEVICE \<and>
     np_dtype (slot_pixel_format s) = f \<and>
     slot_width s = Some w \<and> 1 \<le> w \<and> slot_height s = Some h \<and> 1 \<le> h \<and>
     slot_device_idx s = Some i)"

text \<open>The argument that assigns a format, as a dtype object or as a scalar class.\<close>

fun format_obj :: "format \<Rightarrow> pyobj" where
  "format_obj (FmtDtype d) = ObjDtype d"
| "format_obj (FmtClass k) = ObjScalarClass k"





section \<open>Properties\<close>

subsection \<open>Statements and names\<close>

lemmas prog_defs = return_def raise_def bnd_def seq_def gets_def modify_def

lemma call_global_glBindBuffer [simp]: "call_global ''glBindBuffer'' m = m"
  by (simp add: call_global_def load_global_def module_globals_def prog_defs fun_eq_iff
      split: prod.splits sum.splits)

lemma call_global_glBufferData [simp]: "call_global ''glBufferData'' m = m"
  by (simp add: call_global_def load_global_def module_globals_def prog_defs fun_eq_iff
      split: prod.splits sum.splits)

lemma call_global_glGenBuffers [simp]: "call_global ''glGenBuffers'' m = m"
  by (simp add: call_global_def load_global_def module_globals_def prog_defs fun_eq_iff
      split: prod.splits sum.splits)

lemma call_global_vtype_to_dtype [simp]: "call_global ''vtype_to_dtype'' m = m"
  by (simp add: call_global_def load_global_def module_globals_def prog_defs fun_eq_iff
      split: prod.splits sum.splits)

text \<open>The three names the module reads and never binds.\<close>

lemma load_global_buffer_type [simp]:
  "load_global ''buffer_type'' = raise (NameError ''buffer_type'')"
  by (simp add: load_global_def module_globals_def builtin_names_def)

lemma load_global_stream [simp]:
  "load_global ''stream'' = raise (NameError ''stream'')"
  by (simp add: load_global_def module_globals_def builtin_names_def)

lemma load_global_glDeleteBuffers [simp]:
  "load_global ''glDeleteBuffers'' = raise (NameError ''glDeleteBuffers'')"
  by (simp add: load_global_def module_globals_def builtin_names_def)

lemma call_global_glDeleteBuffers [simp]:
  "call_global ''glDeleteBuffers'' m = raise (NameError ''glDeleteBuffers'')"
  by (simp add: call_global_def prog_defs fun_eq_iff)

subsection \<open>Methods that read an unbound name\<close>

lemma get_host_buffer_NameError:
  "get_host_buffer s = (Inl (NameError ''buffer_type''), s)"
  by (simp add: get_host_buffer_def prog_defs)

lemma unmap_outcome:
  "unmap s =
    (case slot_device s of
       None \<Rightarrow> (Inl (AttributeError ''use''), s)
     | Some d \<Rightarrow> (Inl (NameError ''buffer_type''), s\<lparr>current_device := Some (device_id d)\<rparr>))"
  by (simp add: unmap_def make_current_def Device_use_def prog_defs split: option.splits)

lemma unmap_never_synchronizes:
  "stream_syncs (snd (unmap s)) = stream_syncs s \<and> fst (unmap s) \<noteq> Inr ()"
  by (simp add: unmap_outcome split: option.splits)

lemma set_stream_NameError: "set_stream v s = (Inl (NameError ''stream''), s)"
  by (simp add: set_stream_def prog_defs)

lemma delete_pbo_outcome:
  "delete_pbo s =
    (case slot_pbo s of
       None \<Rightarrow> (Inr (), s)
     | Some b \<Rightarrow> (Inl (NameError ''glDeleteBuffers''), s\<lparr>gl_array_buffer := 0\<rparr>))"
  by (simp add: delete_pbo_def glBindBuffer_def prog_defs split: option.splits)

text \<open>
  C1. For the buffer type \<open>CUDA_DEVICE\<close>, \<open>unmap()\<close> should return normally after
  synchronising the controller's stream. On the example controller it raises \<open>NameError\<close> for the name
  \<open>buffer_type\<close> and no stream is synchronised; the controller's stream slot is \<open>None\<close>
  as well, since \<open>__init__\<close> never assigns it.
\<close>

theorem unmap_cuda_device_raises_NameError:
  "slot_buffer_type example_controller = Some CUDA_DEVICE \<and>
   fst (unmap example_controller) = Inl (NameError ''buffer_type'') \<and>
   stream_syncs (snd (unmap example_controller)) = stream_syncs example_controller \<and>
   slot_stream example_controller = None"
  by code_simp

text \<open>
  C6. For the buffer types other than \<open>CUDA_DEVICE\<close> every transfer operation should
  raise the placeholder \<open>NotImplementedError\<close>. On a controller whose buffer type is
  \<open>GL_INTEROP\<close>, \<open>map()\<close> and \<open>get_pbo()\<close> do, while \<open>unmap()\<close> and
  \<open>get_host_buffer()\<close> raise \<open>NameError\<close> for the name \<open>buffer_type\<close>.
\<close>

theorem interop_unmap_and_get_host_buffer_raise_NameError:
  "slot_buffer_type example_interop = Some GL_INTEROP \<and>
   fst (map_buffer example_interop) = Inl (NotImplementedError (ObjBufferType GL_INTEROP)) \<and>
   fst (get_pbo example_interop) = Inl (NotImplementedError (ObjBufferType GL_INTEROP)) \<and>
   fst (unmap example_interop) = Inl (NameError ''buffer_type'') \<and>
   fst (get_host_buffer example_interop) = Inl (NameError ''buffer_type'')"
  by code_simp

text \<open>
  C7. For the buffer type \<open>CUDA_DEVICE\<close>, \<open>get_host_buffer()\<close> should copy the device
  array to the host array and return the host array, and for the other buffer types it
  should raise \<open>NotImplementedError\<close>. It raises \<open>NameError\<close> for the name
  \<open>buffer_type\<close> in both cases, before any copy: the host memory is as it was.
\<close>

theorem get_host_buffer_raises_NameError:
  "slot_buffer_type example_controller = Some CUDA_DEVICE \<and>
   fst (get_host_buffer example_controller) = Inl (NameError ''buffer_type'') \<and>
   slot_buffer_type example_zero_copy = Some ZERO_COPY \<and>
   fst (get_host_buffer example_zero_copy) = Inl (NameError ''buffer_type'')"
  by code_simp

text \<open>
  C9. \<open>delete_pbo()\<close> should destroy a present buffer object and set the slot to
  \<open>None\<close>. On a controller that holds the buffer object 1 it unbinds
  \<open>GL_ARRAY_BUFFER\<close>, then raises \<open>NameError\<close> for the name \<open>glDeleteBuffers\<close>: nothing
  is deleted and the slot still holds 1, so a second call raises again.
\<close>

theorem delete_pbo_present_raises_NameError:
  "slot_pbo example_with_pbo = Some 1 \<and>
   fst (delete_pbo example_with_pbo) = Inl (NameError ''glDeleteBuffers'') \<and>
   slot_pbo (snd (delete_pbo example_with_pbo)) = Some 1 \<and>
   gl_deleted (snd (delete_pbo example_with_pbo)) = [] \<and>
   fst (delete_pbo (snd (delete_pbo example_with_pbo))) = Inl (NameError ''glDeleteBuffers'')"
  by code_simp

subsection \<open>The property setters\<close>

lemma wrap32_id: "- (2 ^ 31) \<le> v \<Longrightarrow> v < 2 ^ 31 \<Longrightarrow> wrap32 v = v"
  by (simp add: wrap32_def)

lemma wrap32_range: "- (2 ^ 31) \<le> wrap32 v \<and> wrap32 v < 2 ^ 31"
  by (simp add: wrap32_def)

text \<open>What each setter returns and leaves behind, case by case.\<close>

lemma set_width_outcome:
  "set_width v s =
    (if v < 1 then (Inl (AssertionError (ObjInt v)), s)
     else if 2 ^ 63 \<le> v then (Inl OverflowError, s)
     else if slot_width s = Some (wrap32 v) then (Inr (), s)
     else (Inr (), s\<lparr>slot_width := Some (wrap32 v), slot_host_buffer := None,
                       slot_device_buffer := None\<rparr>))"
  by (auto simp add: set_width_def np_int32_def prog_defs)

lemma set_height_outcome:
  "set_height v s =
    (if v < 1 then (Inl (AssertionError (ObjInt v)), s)
     else if 2 ^ 63 \<le> v then (Inl OverflowError, s)
     else if slot_height s = Some (wrap32 v) then (Inr (), s)
     else (Inr (), s\<lparr>slot_height := Some (wrap32 v), slot_host_buffer := None,
                       slot_device_buffer := None\<rparr>))"
  by (auto simp add: set_height_def np_int32_def prog_defs)

lemma set_device_idx_outcome:
  "set_device_idx (Some v) s =
    (if v < 0 then (Inl (AssertionError (ObjInt v)), s)
     else if slot_device_idx s = Some v then (Inr (), s)
     else (Inr (), s\<lparr>slot_device_idx := Some v, slot_device := Some (Device v),
                       slot_host_buffer := None, slot_device_buffer := None\<rparr>))"
  by (auto simp add: set_device_idx_def prog_defs)

lemma set_buffer_type_outcome:
  "set_buffer_type (ObjBufferType b) s =
    (if slot_buffer_type s = Some b then (Inr (), s)
     else (Inr (), s\<lparr>slot_buffer_type := Some b, slot_host_buffer := None,
                       slot_device_buffer := None\<rparr>))"
  by (auto simp add: set_buffer_type_def prog_defs)

lemma set_pixel_format_outcome:
  "set_pixel_format tbl (format_obj fm) s =
    (if format_ne fm (slot_pixel_format s)
     then (Inr (), s\<lparr>slot_pixel_format := Some fm, slot_host_buffer := None,
                       slot_device_buffer := None\<rparr>)
     else (Inr (), s))"
  by (cases fm) (simp_all add: set_pixel_format_def prog_defs)

lemma set_pixel_format_str_outcome:
  "set_pixel_format tbl (ObjStr tag) s =
    (case map_of tbl tag of
       None \<Rightarrow> (Inl (InvalidFormat tag), s)
     | Some d \<Rightarrow> set_pixel_format tbl (ObjDtype d) s)"
  by (auto simp add: set_pixel_format_def vtype_to_dtype_def prog_defs split: option.splits)


text \<open>
  A value that the guard of the setter finds equal to the stored one: the value a slot
  holds, and the dtype \<open>float64\<close> for a pixel-format slot that holds \<open>None\<close>.
\<close>

lemma format_ne_stored: "\<not> format_ne fm (Some fm)"
  by (cases fm) simp_all

lemma format_ne_float64_None: "\<not> format_ne (FmtDtype float64) None"
  by simp


lemma setter_stored_value_is_noop:
  assumes "valid_controller s"
  shows "(slot_pixel_format s = Some fm \<longrightarrow>
            set_pixel_format tbl (format_obj fm) s = (Inr (), s)) \<and>
         (slot_pixel_format s = None \<longrightarrow>
            set_pixel_format tbl (ObjDtype float64) s = (Inr (), s)) \<and>
         (slot_buffer_type s = Some b \<longrightarrow> set_buffer_type (ObjBufferType b) s = (Inr (), s)) \<and>
         (slot_width s = Some w \<longrightarrow>
            snd (set_width w s) = s \<and> (1 \<le> w \<longrightarrow> fst (set_width w s) = Inr ())) \<and>
         (slot_height s = Some h \<longrightarrow>
            snd (set_height h s) = s \<and> (1 \<le> h \<longrightarrow> fst (set_height h s) = Inr ())) \<and>
         (slot_device_idx s = Some i \<longrightarrow> set_device_idx (Some i) s = (Inr (), s))"
proof -
  have dims: "dim_ok (slot_width s)" "dim_ok (slot_height s)" "idx_ok (slot_device_idx s)"
    using assms by (simp_all add: valid_controller_def)
  have "slot_pixel_format s = Some fm \<longrightarrow> set_pixel_format tbl (format_obj fm) s = (Inr (), s)"
    by (simp add: set_pixel_format_outcome format_ne_stored)
  moreover have "slot_pixel_format s = None \<longrightarrow>
      set_pixel_format tbl (ObjDtype float64) s = (Inr (), s)"
    using set_pixel_format_outcome [of tbl "FmtDtype float64" s] by simp
  moreover have "slot_width s = Some w \<longrightarrow>
      snd (set_width w s) = s \<and> (1 \<le> w \<longrightarrow> fst (set_width w s) = Inr ())"
    using dims(1) by (auto simp add: set_width_outcome dim_ok_def wrap32_id)
  moreover have "slot_height s = Some h \<longrightarrow>
      snd (set_height h s) = s \<and> (1 \<le> h \<longrightarrow> fst (set_height h s) = Inr ())"
    using dims(2) by (auto simp add: set_height_outcome dim_ok_def wrap32_id)
  moreover have "slot_device_idx s = Some i \<longrightarrow> set_device_idx (Some i) s = (Inr (), s)"
    using dims(3) by (auto simp add: set_device_idx_outcome idx_ok_def)
  ultimately show ?thesis
    by (simp add: set_buffer_type_outcome)
qed

text \<open>
  C4. Assigning a descriptor property its current value should leave both arrays as they
  are. The setter of the pixel format misses a case. \<open>__init__\<close> with the dtype
  \<open>float64\<close> compares it with the empty slot, \<open>np.dtype('float64') != None\<close>, which is
  false, and so leaves the slot \<open>None\<close> while both arrays are \<open>float64\<close>. On that
  controller, assigning its format as the scalar class \<open>np.float64\<close> compares the class
  with \<open>None\<close>, which is true: the setter stores the class and sets both arrays to
  \<open>None\<close>, and the next \<open>map()\<close> allocates again. (On a controller whose slot holds a
  dtype, the same assignment of the scalar class of that dtype changes nothing, and so
  does every assignment of the value a slot holds: lemma \<open>setter_stored_value_is_noop\<close>.)
\<close>

theorem float64_controller_scalar_class_invalidates:
  "slot_pixel_format example_float64 = None \<and>
   map_option arr_dtype (slot_host_buffer example_float64) = Some float64 \<and>
   map_option arr_dtype (slot_device_buffer example_float64) = Some float64 \<and>
   class_dtype np_float64 = np_dtype (slot_pixel_format example_float64) \<and>
   fst (set_pixel_format example_formats (ObjScalarClass np_float64) example_float64) = Inr () \<and>
   slot_host_buffer
     (snd (set_pixel_format example_formats (ObjScalarClass np_float64) example_float64)) = None \<and>
   slot_device_buffer
     (snd (set_pixel_format example_formats (ObjScalarClass np_float64) example_float64)) = None \<and>
   length (host_allocs (snd (map_buffer
     (snd (set_pixel_format example_formats (ObjScalarClass np_float64) example_float64))))) =
     length (host_allocs example_float64) + 1 \<and>
   slot_host_buffer
     (snd (set_pixel_format example_formats (ObjScalarClass (ScalarClass ''float32'' (DType ''float32'' 4)))
        example_controller)) = slot_host_buffer example_controller \<and>
   slot_host_buffer example_controller \<noteq> None"
  by code_simp

text \<open>
  C8. Assigning a width or a height below 1 fails in the setter, by its assertion, with the
  value as the message, and assigning a pixel-format tag that the resolver does not know
  fails in the setter with the resolver's \<open>InvalidFormat\<close>. Either way the state is the
  one before the call, so nothing has been allocated.
\<close>

theorem invalid_dimension_and_format_raise:
  "(v < 1 \<longrightarrow> set_width v s = (Inl (AssertionError (ObjInt v)), s) \<and>
               set_height v s = (Inl (AssertionError (ObjInt v)), s)) \<and>
   (map_of tbl tag = None \<longrightarrow> set_pixel_format tbl (ObjStr tag) s = (Inl (InvalidFormat tag), s))"
  by (simp add: set_width_outcome set_height_outcome set_pixel_format_str_outcome)

theorem invalid_dimension_and_format_raise_witness:
  "(0::int) < 1 \<and> map_of example_formats ''rgb'' = None \<and>
   set_width 0 example_controller = (Inl (AssertionError (ObjInt 0)), example_controller) \<and>
   set_height 0 example_controller = (Inl (AssertionError (ObjInt 0)), example_controller) \<and>
   set_pixel_format example_formats (ObjStr ''rgb'') example_controller = (Inl (InvalidFormat ''rgb''), example_controller)"
proof -
  have a: "(0::int) < 1" by simp
  have b: "map_of example_formats ''rgb'' = None" by code_simp
  show ?thesis
    using invalid_dimension_and_format_raise [of 0 example_controller example_formats "''rgb''"] a b
    by blast
qed

text \<open>
  C10. Reading the property \<open>device_idx\<close> returns the device handle held in \<open>_device\<close>,
  not the integer that was assigned: after \<open>device_idx = v\<close> with \<open>v \<ge> 0\<close> the
  property reads as \<open>cp.cuda.Device(v)\<close>, and on any state whose index slot holds \<open>i\<close> it
  reads as \<open>cp.cuda.Device(i)\<close>. The hypothesis says that \<open>_device\<close> is the device of
  \<open>_device_idx\<close> (or both are \<open>None\<close>), which holds from \<open>__init__\<close> on, the setter being
  the only code that assigns either.
\<close>

theorem device_idx_reads_device_handle:
  assumes "slot_device s = map_option Device (slot_device_idx s)" and "0 \<le> v"
  shows "fst (set_device_idx (Some v) s) = Inr () \<and>
         fst (get_device_idx (snd (set_device_idx (Some v) s))) = Inr (ObjDevice (Device v)) \<and>
         fst (get_device_idx (snd (set_device_idx (Some v) s))) \<noteq> Inr (ObjInt v) \<and>
         (slot_device_idx s = Some i \<longrightarrow>
            get_device_idx s = (Inr (ObjDevice (Device i)), s) \<and>
            fst (get_device_idx s) \<noteq> Inr (ObjInt i))"
  using assms by (auto simp add: set_device_idx_outcome get_device_idx_def prog_defs)

theorem device_idx_reads_device_handle_witness:
  "slot_device example_controller = map_option Device (slot_device_idx example_controller) \<and>
   (0::int) \<le> 2 \<and> slot_device_idx example_controller = Some 0 \<and>
   fst (set_device_idx (Some 2) example_controller) = Inr () \<and>
   fst (get_device_idx (snd (set_device_idx (Some 2) example_controller))) =
     Inr (ObjDevice (Device 2)) \<and>
   fst (get_device_idx (snd (set_device_idx (Some 2) example_controller))) \<noteq> Inr (ObjInt 2) \<and>
   get_device_idx example_controller = (Inr (ObjDevice (Device 0)), example_controller) \<and>
   fst (get_device_idx example_controller) \<noteq> Inr (ObjInt 0)"
proof -
  have a: "slot_device example_controller = map_option Device (slot_device_idx example_controller)"
    by code_simp
  have b: "(0::int) \<le> 2" by simp
  have c: "slot_device_idx example_controller = Some 0" by code_simp
  show ?thesis
    using device_idx_reads_device_handle [OF a b, of 0] a b c by blast
qed

subsection \<open>Allocation and \<open>map()\<close>\<close>

lemmas valid_defs = valid_controller_def dim_ok_def idx_ok_def buffer_ok_def

lemma reallocate_buffers_not_cuda:
  "slot_buffer_type s \<noteq> Some CUDA_DEVICE \<Longrightarrow>
   reallocate_buffers s = (Inl (NotImplementedError (buffer_type_obj (slot_buffer_type s))), s)"
  by (simp add: reallocate_buffers_def get_buffer_type_def get_pixel_format_def get_width_def
      get_height_def prog_defs)

lemma reallocate_buffers_negative:
  assumes "slot_buffer_type s = Some CUDA_DEVICE"
    and "slot_width s = Some w" and "slot_height s = Some h" and "w < 0 \<or> h < 0"
  shows "reallocate_buffers s = (Inl (ValueError ''negative dimensions are not allowed''), s)"
  using assms
  by (auto simp add: reallocate_buffers_def get_buffer_type_def get_pixel_format_def get_width_def
      get_height_def np_empty_def prog_defs)

lemma reallocate_buffers_cuda:
  assumes "slot_buffer_type s = Some CUDA_DEVICE"
    and "slot_width s = Some w" and "slot_height s = Some h" and "0 \<le> w" and "0 \<le> h"
    and "slot_pbo s \<noteq> Some 0"
  shows "reallocate_buffers s =
    (Inr (),
     (let f = np_dtype (slot_pixel_format s);
          n = nat (w * h) * itemsize f;
          hb = \<lparr>data_ptr = host_brk s, shape = (w, h), arr_dtype = f\<rparr>;
          db = \<lparr>data_ptr = device_brk s, shape = (w, h), arr_dtype = f\<rparr>;
          s1 = s\<lparr>slot_host_buffer := Some hb, slot_device_buffer := Some db,
                 host_brk := host_brk s + n, host_allocs := (host_brk s, n) # host_allocs s,
                 device_brk := device_brk s + n,
                 device_allocs := (device_brk s, n) # device_allocs s\<rparr>
      in case slot_pbo s of
           None \<Rightarrow> s1
         | Some b \<Rightarrow>
             s1\<lparr>gl_array_buffer := 0,
                gl_data := (gl_data s)(b := map (host_mem s) [host_brk s ..< host_brk s + n])\<rparr>))"
  using assms
  by (simp add: reallocate_buffers_def get_buffer_type_def get_pixel_format_def get_width_def
      get_height_def np_empty_def cp_empty_def nbytes_def glBindBuffer_def
      glBufferData_def prog_defs Let_def split: option.splits)

lemma make_current_outcome:
  "make_current s =
    (case slot_device s of
       None \<Rightarrow> (Inl (AttributeError ''use''), s)
     | Some d \<Rightarrow> (Inr (), s\<lparr>current_device := Some (device_id d)\<rparr>))"
  by (simp add: make_current_def Device_use_def prog_defs split: option.splits)

lemma map_buffer_present:
  assumes "slot_device s = Some (Device i)"
    and "slot_host_buffer s = Some hb" and "slot_device_buffer s = Some db"
  shows "map_buffer s = (Inr (data_ptr db), s\<lparr>current_device := Some i\<rparr>)"
  using assms by (simp add: map_buffer_def make_current_outcome prog_defs)

lemma map_buffer_absent:
  assumes "slot_device s = Some (Device i)"
    and "slot_host_buffer s = None \<or> slot_device_buffer s = None"
  shows "map_buffer s =
    (case reallocate_buffers (s\<lparr>current_device := Some i\<rparr>) of
       (Inl e, s') \<Rightarrow> (Inl e, s')
     | (Inr _, s') \<Rightarrow>
         (case slot_device_buffer s' of
            None \<Rightarrow> (Inl (AttributeError ''data''), s')
          | Some d \<Rightarrow> (Inr (data_ptr d), s')))"
  using assms
  by (auto simp add: map_buffer_def make_current_outcome prog_defs
      split: prod.splits sum.splits option.splits)

text \<open>Updates that keep a controller a controller.\<close>

lemma valid_update_width:
  "valid_controller s \<Longrightarrow> - (2 ^ 31) \<le> v \<Longrightarrow> v < 2 ^ 31 \<Longrightarrow>
   valid_controller (s\<lparr>slot_width := Some v, slot_host_buffer := None, slot_device_buffer := None\<rparr>)"
  by (simp add: valid_defs)

lemma valid_update_height:
  "valid_controller s \<Longrightarrow> - (2 ^ 31) \<le> v \<Longrightarrow> v < 2 ^ 31 \<Longrightarrow>
   valid_controller (s\<lparr>slot_height := Some v, slot_host_buffer := None, slot_device_buffer := None\<rparr>)"
  by (simp add: valid_defs)

lemma valid_update_device_idx:
  "valid_controller s \<Longrightarrow> 0 \<le> v \<Longrightarrow>
   valid_controller (s\<lparr>slot_device_idx := Some v, slot_device := Some (Device v),
     slot_host_buffer := None, slot_device_buffer := None\<rparr>)"
  by (simp add: valid_defs)

lemma valid_update_buffer_type:
  "valid_controller s \<Longrightarrow>
   valid_controller (s\<lparr>slot_buffer_type := Some b, slot_host_buffer := None, slot_device_buffer := None\<rparr>)"
  by (simp add: valid_defs)

lemma valid_update_pixel_format:
  "valid_controller s \<Longrightarrow>
   valid_controller (s\<lparr>slot_pixel_format := Some fm, slot_host_buffer := None, slot_device_buffer := None\<rparr>)"
  by (simp add: valid_defs)

lemma valid_update_current_device:
  "valid_controller s \<Longrightarrow> valid_controller (s\<lparr>current_device := d\<rparr>)"
  by (simp add: valid_defs cong: option.case_cong)

lemma valid_update_gl_array_buffer:
  "valid_controller s \<Longrightarrow> valid_controller (s\<lparr>gl_array_buffer := b\<rparr>)"
  by (simp add: valid_defs cong: option.case_cong)

lemma valid_controller_reallocate_buffers:
  assumes "valid_controller s"
  shows "valid_controller (snd (reallocate_buffers s))"
proof (cases "slot_buffer_type s = Some CUDA_DEVICE")
  case True
  obtain w h where slots: "slot_width s = Some w" "slot_height s = Some h"
    using assms by (auto simp add: valid_defs split: option.splits)
  have pbo: "slot_pbo s \<noteq> Some 0"
    using assms by (simp add: valid_defs)
  show ?thesis
  proof (cases "0 \<le> w \<and> 0 \<le> h")
    case nonneg: True
    then show ?thesis
      using assms slots True pbo
      by (auto simp add: reallocate_buffers_cuda [where w = w and h = h] valid_defs
          nbytes_def Let_def split: option.splits)
  next
    case False
    then have "w < 0 \<or> h < 0" by auto
    then show ?thesis
      using assms by (simp add: reallocate_buffers_negative [OF True slots])
  qed
next
  case False
  then show ?thesis using assms by (simp add: reallocate_buffers_not_cuda)
qed


text \<open>What \<open>__init__\<close> builds from a valid configuration with buffer type \<open>CUDA_DEVICE\<close>.\<close>

lemma np_dtype_after_set:
  "np_dtype (if format_ne fm None then Some fm else None) = np_dtype (Some fm)"
  by (cases fm) auto

lemma init_configured:
  assumes "1 \<le> w" and "w < 2 ^ 31" and "1 \<le> h" and "h < 2 ^ 31" and "0 \<le> i"
  shows "fst (init tbl (ObjBufferType CUDA_DEVICE) (format_obj fm) w h (Some i) s) = Inr () \<and>
         configured (snd (init tbl (ObjBufferType CUDA_DEVICE) (format_obj fm) w h (Some i) s))
           (np_dtype (Some fm)) w h i \<and>
         slot_host_buffer (snd (init tbl (ObjBufferType CUDA_DEVICE) (format_obj fm) w h (Some i) s))
           \<noteq> None \<and>
         slot_device_buffer (snd (init tbl (ObjBufferType CUDA_DEVICE) (format_obj fm) w h (Some i) s))
           \<noteq> None"
proof -
  define c where "c = snd (seq (set_device_idx (Some i))
                     (seq (set_pixel_format tbl (format_obj fm))
                     (seq (set_buffer_type (ObjBufferType CUDA_DEVICE))
                          (resize w h))) (clear_slots s))"
  have run: "init tbl (ObjBufferType CUDA_DEVICE) (format_obj fm) w h (Some i) s =
             reallocate_buffers c"
    using assms
    by (simp add: c_def init_def resize_def set_device_idx_outcome set_pixel_format_outcome
        set_buffer_type_outcome set_width_outcome set_height_outcome prog_defs clear_slots_def
        wrap32_id)
  have slots: "slot_buffer_type c = Some CUDA_DEVICE" "slot_width c = Some w"
    "slot_height c = Some h" "slot_pbo c \<noteq> Some 0" "slot_device_idx c = Some i"
    "slot_device c = Some (Device i)" "slot_pbo c = None"
    "slot_pixel_format c = (if format_ne fm None then Some fm else None)"
    using assms
    by (simp_all add: c_def resize_def set_device_idx_outcome set_pixel_format_outcome
        set_buffer_type_outcome set_width_outcome set_height_outcome prog_defs clear_slots_def
        wrap32_id)
  have f: "np_dtype (slot_pixel_format c) = np_dtype (Some fm)"
    using np_dtype_after_set [of fm] by (simp add: slots)
  show ?thesis
    using assms slots(1-7) f
    by (simp add: run reallocate_buffers_cuda [where w = w and h = h] configured_def valid_defs
        nbytes_def Let_def)
qed

lemma init_valid_controller:
  assumes "1 \<le> w" and "w < 2 ^ 31" and "1 \<le> h" and "h < 2 ^ 31" and "0 \<le> i"
  shows "valid_controller (snd (init tbl (ObjBufferType CUDA_DEVICE) (format_obj fm) w h (Some i) s))"
  using init_configured [OF assms, of tbl fm s] by (simp add: configured_def)






subsection \<open>Controllers stay controllers\<close>

lemma valid_update_width_wrap32:
  "valid_controller s \<Longrightarrow>
   valid_controller (s\<lparr>slot_width := Some (wrap32 v), slot_host_buffer := None,
     slot_device_buffer := None\<rparr>)"
  using wrap32_range [of v] by (intro valid_update_width) simp_all

lemma valid_update_height_wrap32:
  "valid_controller s \<Longrightarrow>
   valid_controller (s\<lparr>slot_height := Some (wrap32 v), slot_host_buffer := None,
     slot_device_buffer := None\<rparr>)"
  using wrap32_range [of v] by (intro valid_update_height) simp_all

lemma valid_controller_set_width:
  "valid_controller s \<Longrightarrow> valid_controller (snd (set_width v s))"
  by (simp add: set_width_outcome valid_update_width_wrap32)

lemma valid_controller_set_height:
  "valid_controller s \<Longrightarrow> valid_controller (snd (set_height v s))"
  by (simp add: set_height_outcome valid_update_height_wrap32)

lemma valid_controller_resize: "valid_controller s \<Longrightarrow> valid_controller (snd (resize w h s))"
  using valid_controller_set_width [of s w]
    valid_controller_set_height [of "snd (set_width w s)" h]
  by (cases "set_width w s") (auto simp add: resize_def prog_defs split: sum.splits)

lemma valid_controller_set_device_idx:
  "valid_controller s \<Longrightarrow> valid_controller (snd (set_device_idx v s))"
  by (cases v)
    (simp_all add: set_device_idx_outcome valid_update_device_idx, simp add: set_device_idx_def prog_defs)

lemma valid_controller_set_buffer_type:
  "valid_controller s \<Longrightarrow> valid_controller (snd (set_buffer_type v s))"
  by (cases v)
    (simp_all add: set_buffer_type_outcome valid_update_buffer_type, simp_all add: set_buffer_type_def prog_defs)

lemma valid_controller_set_pixel_format:
  assumes "valid_controller s"
  shows "valid_controller (snd (set_pixel_format tbl v s))"
proof (cases v)
  case (ObjStr tag)
  then show ?thesis
    using assms set_pixel_format_outcome [of tbl "FmtDtype d" s for d]
    by (simp add: set_pixel_format_str_outcome valid_update_pixel_format split: option.splits)
next
  case (ObjDtype d)
  then show ?thesis
    using assms set_pixel_format_outcome [of tbl "FmtDtype d" s]
    by (simp add: valid_update_pixel_format)
next
  case (ObjScalarClass k)
  then show ?thesis
    using assms set_pixel_format_outcome [of tbl "FmtClass k" s]
    by (simp add: valid_update_pixel_format)
qed (simp_all add: assms set_pixel_format_def prog_defs)

lemma valid_controller_set_stream:
  "valid_controller s \<Longrightarrow> valid_controller (snd (set_stream v s))"
  by (simp add: set_stream_NameError)

lemma valid_controller_unmap: "valid_controller s \<Longrightarrow> valid_controller (snd (unmap s))"
  by (simp add: unmap_outcome valid_update_current_device split: option.splits)

lemma valid_controller_get_host_buffer:
  "valid_controller s \<Longrightarrow> valid_controller (snd (get_host_buffer s))"
  by (simp add: get_host_buffer_NameError)

lemma valid_controller_delete_pbo:
  "valid_controller s \<Longrightarrow> valid_controller (snd (delete_pbo s))"
  by (simp add: delete_pbo_outcome valid_update_gl_array_buffer split: option.splits)

lemmas export_defs =
  get_pbo_def make_current_outcome get_buffer_type_def copy_device_to_host_def
  copy_host_to_pbo_def memcpyDeviceToHost_def glGenBuffers_def glBindBuffer_def
  glBufferData_def prog_defs

lemma valid_controller_get_pbo: "valid_controller s \<Longrightarrow> valid_controller (snd (get_pbo s))"
  by (auto simp add: export_defs valid_defs split: option.splits cong: option.case_cong)

lemma valid_controller_copy_device_to_host:
  "valid_controller s \<Longrightarrow> valid_controller (snd (copy_device_to_host s))"
  by (auto simp add: copy_device_to_host_def memcpyDeviceToHost_def prog_defs valid_defs
      split: option.splits cong: option.case_cong)

lemma valid_controller_copy_host_to_pbo:
  "valid_controller s \<Longrightarrow> valid_controller (snd (copy_host_to_pbo s))"
  by (auto simp add: copy_host_to_pbo_def glBindBuffer_def glBufferData_def prog_defs valid_defs
      split: option.splits cong: option.case_cong)

text \<open>Whenever \<open>__init__\<close> returns, whatever its arguments, it has built a controller.\<close>

lemma seq_success:
  assumes "fst (seq m k s) = Inr r"
  shows "fst (m s) = Inr () \<and> seq m k s = k (snd (m s))"
  using assms by (cases "m s") (auto simp add: prog_defs split: sum.splits)

lemma set_pixel_format_cases:
  "set_pixel_format tbl v s = (Inr (), s) \<or>
   (\<exists>fm. set_pixel_format tbl v s =
      (Inr (), s\<lparr>slot_pixel_format := Some fm, slot_host_buffer := None,
                   slot_device_buffer := None\<rparr>)) \<or>
   (\<exists>e. set_pixel_format tbl v s = (Inl e, s))"
proof (cases v)
  case (ObjStr tag)
  then show ?thesis
    using set_pixel_format_outcome [of tbl "FmtDtype d" s for d]
    by (auto simp add: set_pixel_format_str_outcome split: option.splits)
next
  case (ObjDtype d)
  then show ?thesis using set_pixel_format_outcome [of tbl "FmtDtype d" s] by auto
next
  case (ObjScalarClass k)
  then show ?thesis using set_pixel_format_outcome [of tbl "FmtClass k" s] by auto
qed (simp_all add: set_pixel_format_def prog_defs)

lemma init_returns_controller:
  assumes "fst (init tbl b v w h i s) = Inr ()"
  shows "valid_controller (snd (init tbl b v w h i s))"
proof -
  let ?c0 = "clear_slots s"
  let ?s1 = "snd (set_device_idx i ?c0)"
  let ?s2 = "snd (set_pixel_format tbl v ?s1)"
  let ?s3 = "snd (set_buffer_type b ?s2)"
  let ?s4 = "snd (resize w h ?s3)"
  have run0: "init tbl b v w h i s =
      seq (set_device_idx i) (seq (set_pixel_format tbl v) (seq (set_buffer_type b)
        (seq (resize w h) reallocate_buffers))) ?c0"
    by (simp add: init_def prog_defs)
  from assms run0 seq_success [of "set_device_idx i" _ ?c0 "()"]
  have ok1: "fst (set_device_idx i ?c0) = Inr ()"
    and run1: "init tbl b v w h i s = seq (set_pixel_format tbl v) (seq (set_buffer_type b)
        (seq (resize w h) reallocate_buffers)) ?s1"
    by simp_all
  from assms run1 seq_success [of "set_pixel_format tbl v" _ ?s1 "()"]
  have ok2: "fst (set_pixel_format tbl v ?s1) = Inr ()"
    and run2: "init tbl b v w h i s = seq (set_buffer_type b)
        (seq (resize w h) reallocate_buffers) ?s2"
    by simp_all
  from assms run2 seq_success [of "set_buffer_type b" _ ?s2 "()"]
  have ok3: "fst (set_buffer_type b ?s2) = Inr ()"
    and run3: "init tbl b v w h i s = seq (resize w h) reallocate_buffers ?s3"
    by simp_all
  from assms run3 seq_success [of "resize w h" _ ?s3 "()"]
  have ok4: "fst (resize w h ?s3) = Inr ()"
    and run4: "init tbl b v w h i s = reallocate_buffers ?s4"
    by simp_all
  obtain iv where i: "i = Some iv" "0 \<le> iv"
    using ok1 by (cases i) (auto simp add: set_device_idx_def set_device_idx_outcome prog_defs split: if_splits)
  have p1: "slot_device_idx ?s1 = Some iv \<and> slot_device ?s1 = Some (Device iv) \<and>
      slot_pbo ?s1 = None \<and> slot_host_buffer ?s1 = None \<and> slot_device_buffer ?s1 = None"
    using i by (simp add: set_device_idx_outcome clear_slots_def)
  have p2: "slot_device_idx ?s2 = Some iv \<and> slot_device ?s2 = Some (Device iv) \<and>
      slot_pbo ?s2 = None \<and> slot_host_buffer ?s2 = None \<and> slot_device_buffer ?s2 = None"
    using set_pixel_format_cases [of tbl v ?s1] p1 by auto
  obtain bt where b: "b = ObjBufferType bt"
    using ok3 by (cases b) (simp_all add: set_buffer_type_def prog_defs)
  have p3: "slot_device_idx ?s3 = Some iv \<and> slot_device ?s3 = Some (Device iv) \<and>
      slot_pbo ?s3 = None \<and> slot_host_buffer ?s3 = None \<and> slot_device_buffer ?s3 = None \<and>
      slot_buffer_type ?s3 = Some bt"
    using p2 by (simp add: b set_buffer_type_outcome)
  have okw: "fst (set_width w ?s3) = Inr ()"
    and resz: "resize w h ?s3 = set_height h (snd (set_width w ?s3))"
    using ok4 seq_success [of "set_width w" "set_height h" ?s3 "()"] by (simp_all add: resize_def)
  have okh: "fst (set_height h (snd (set_width w ?s3))) = Inr ()"
    using ok4 resz by simp
  let ?sw = "snd (set_width w ?s3)"
  have pw: "slot_device_idx ?sw = Some iv \<and> slot_device ?sw = Some (Device iv) \<and>
      slot_pbo ?sw = None \<and> slot_host_buffer ?sw = None \<and> slot_device_buffer ?sw = None \<and>
      slot_buffer_type ?sw = Some bt \<and> slot_width ?sw = Some (wrap32 w)"
    using p3 okw by (auto simp add: set_width_outcome split: if_splits)
  have p4: "slot_device_idx ?s4 = Some iv \<and> slot_device ?s4 = Some (Device iv) \<and>
      slot_pbo ?s4 = None \<and> slot_host_buffer ?s4 = None \<and> slot_device_buffer ?s4 = None \<and>
      slot_buffer_type ?s4 = Some bt \<and> slot_width ?s4 = Some (wrap32 w) \<and>
      slot_height ?s4 = Some (wrap32 h)"
    using pw okh by (auto simp add: resz set_height_outcome split: if_splits)
  have "valid_controller ?s4"
    using p4 i wrap32_range [of w] wrap32_range [of h] by (simp add: valid_defs)
  then show ?thesis
    using valid_controller_reallocate_buffers [of ?s4] by (simp add: run4)
qed

subsection \<open>Invalidation\<close>







subsection \<open>The buffer object\<close>

lemma pbo_set_width:
  "slot_pbo (snd (set_width v s)) = slot_pbo s \<and>
   gl_names (snd (set_width v s)) = gl_names s"
  by (simp add: set_width_outcome)

lemma pbo_set_height:
  "slot_pbo (snd (set_height v s)) = slot_pbo s \<and>
   gl_names (snd (set_height v s)) = gl_names s"
  by (simp add: set_height_outcome)

lemma pbo_resize:
  "slot_pbo (snd (resize w h s)) = slot_pbo s \<and>
   gl_names (snd (resize w h s)) = gl_names s"
  by (simp add: resize_def set_width_outcome set_height_outcome prog_defs)

lemma pbo_set_device_idx:
  "slot_pbo (snd (set_device_idx v s)) = slot_pbo s \<and>
   gl_names (snd (set_device_idx v s)) = gl_names s"
  by (cases v) (simp_all add: set_device_idx_outcome, simp add: set_device_idx_def prog_defs)

lemma pbo_set_buffer_type:
  "slot_pbo (snd (set_buffer_type v s)) = slot_pbo s \<and>
   gl_names (snd (set_buffer_type v s)) = gl_names s"
  by (cases v) (simp_all add: set_buffer_type_outcome, simp_all add: set_buffer_type_def prog_defs)

lemma pbo_set_pixel_format:
  "slot_pbo (snd (set_pixel_format tbl v s)) = slot_pbo s \<and>
   gl_names (snd (set_pixel_format tbl v s)) = gl_names s"
  by (cases v)
    (auto simp add: set_pixel_format_def vtype_to_dtype_def prog_defs split: option.splits)

lemma pbo_reallocate_buffers:
  "slot_pbo (snd (reallocate_buffers s)) = slot_pbo s \<and> gl_names (snd (reallocate_buffers s)) = gl_names s"
  by (simp add: reallocate_buffers_def get_buffer_type_def get_pixel_format_def get_width_def
      get_height_def np_empty_def cp_empty_def glBindBuffer_def glBufferData_def prog_defs Let_def
      split: option.splits)

lemma pbo_map_buffer:
  "slot_pbo (snd (map_buffer s)) = slot_pbo s \<and> gl_names (snd (map_buffer s)) = gl_names s"
proof (cases "slot_device s")
  case None
  then show ?thesis by (simp add: map_buffer_def make_current_outcome prog_defs)
next
  case (Some d)
  obtain i where d: "d = Device i" by (cases d)
  show ?thesis
  proof (cases "slot_host_buffer s = None \<or> slot_device_buffer s = None")
    case True
    have "slot_pbo (snd (reallocate_buffers (s\<lparr>current_device := Some i\<rparr>))) = slot_pbo s"
         "gl_names (snd (reallocate_buffers (s\<lparr>current_device := Some i\<rparr>))) = gl_names s"
      using pbo_reallocate_buffers [of "s\<lparr>current_device := Some i\<rparr>"] by simp_all
    then show ?thesis
      using Some d True
      by (auto simp add: map_buffer_absent [of s i] split: prod.splits sum.splits option.splits)
  next
    case False
    then show ?thesis using Some d by (auto simp add: map_buffer_present [of s i])
  qed
qed

lemma pbo_get_pbo:
  "slot_pbo s = Some b \<Longrightarrow>
   slot_pbo (snd (get_pbo s)) = Some b \<and> gl_names (snd (get_pbo s)) = gl_names s"
  by (simp add: export_defs split: option.splits)

lemma get_pbo_creates:
  "slot_pbo s = None \<Longrightarrow> slot_device s = Some d \<Longrightarrow>
   slot_pbo (snd (get_pbo s)) = Some (gl_names s + 1) \<and>
   gl_names (snd (get_pbo s)) = gl_names s + 1"
  by (simp add: export_defs split: option.splits)

lemma get_pbo_succeeds:
  assumes "slot_device s = Some d" and "slot_buffer_type s = Some CUDA_DEVICE"
    and "slot_host_buffer s = Some hb" and "slot_device_buffer s = Some db"
    and "slot_pbo s = Some b" and "b \<noteq> 0"
  shows "fst (get_pbo s) = Inr (Some b)"
  using assms by (simp add: export_defs)

lemma get_pbo_success:
  assumes "fst (get_pbo s) = Inr r"
  shows "slot_device (snd (get_pbo s)) \<noteq> None \<and>
         slot_buffer_type (snd (get_pbo s)) = Some CUDA_DEVICE \<and>
         slot_host_buffer (snd (get_pbo s)) \<noteq> None \<and>
         slot_device_buffer (snd (get_pbo s)) \<noteq> None \<and>
         slot_pbo (snd (get_pbo s)) = r \<and> r \<noteq> None \<and> r \<noteq> Some 0"
proof (cases "slot_pbo s")
  case None
  then show ?thesis
    using assms by (auto simp add: export_defs split: option.splits if_splits)
next
  case (Some b)
  then show ?thesis
    using assms by (auto simp add: export_defs split: option.splits if_splits) metis
qed

lemma get_pbo_twice:
  assumes "fst (get_pbo s) = Inr r"
  shows "fst (get_pbo (snd (get_pbo s))) = Inr r"
proof -
  let ?t = "snd (get_pbo s)"
  from get_pbo_success [OF assms]
  obtain d hb db b where "slot_device ?t = Some d" "slot_buffer_type ?t = Some CUDA_DEVICE"
    "slot_host_buffer ?t = Some hb" "slot_device_buffer ?t = Some db"
    "slot_pbo ?t = Some b" "b \<noteq> 0" "r = Some b"
    by auto
  then show ?thesis using get_pbo_succeeds [of ?t d hb db b] by simp
qed

lemma pbo_unmap:
  "slot_pbo (snd (unmap s)) = slot_pbo s \<and>
   gl_names (snd (unmap s)) = gl_names s"
  by (simp add: unmap_outcome split: option.splits)

lemma seq_keeps:
  assumes "\<And>s. g (snd (m s)) = g s" and "\<And>s. g (snd (k s)) = g s"
  shows "g (snd (seq m k s)) = g s"
proof (cases "m s")
  case (Pair r t)
  have t: "g t = g s" using assms(1) [of s] Pair by simp
  show ?thesis
  proof (cases r)
    case (Inl e)
    then show ?thesis using Pair t by (simp add: prog_defs)
  next
    case (Inr u)
    then show ?thesis using Pair t assms(2) [of t] by (simp add: prog_defs)
  qed
qed

lemma pbo_init: "slot_pbo (snd (init tbl t v w h i s)) = None"
proof -
  have "slot_pbo (snd (init tbl t v w h i s)) =
        slot_pbo (snd (seq (set_device_idx i)
                      (seq (set_pixel_format tbl v)
                      (seq (set_buffer_type t)
                      (seq (resize w h) reallocate_buffers))) (clear_slots s)))"
    by (simp add: init_def prog_defs)
  also have "\<dots> = slot_pbo (clear_slots s)"
    by (intro seq_keeps pbo_set_device_idx [THEN conjunct1] pbo_set_pixel_format [THEN conjunct1]
        pbo_set_buffer_type [THEN conjunct1] pbo_resize [THEN conjunct1]
        pbo_reallocate_buffers [THEN conjunct1])
  finally show ?thesis by (simp add: clear_slots_def)
qed

text \<open>
  C5. A buffer object that is present survives every descriptor assignment,
  \<open>resize\<close>, \<open>map()\<close>, \<open>unmap()\<close>, \<open>get_host_buffer()\<close> and \<open>get_pbo()\<close>, whatever
  their outcome, and none of these except \<open>get_pbo()\<close> ever generates a buffer name;
  \<open>get_pbo()\<close> generates one only when the slot is \<open>None\<close> (the first export), and
  \<open>__init__\<close> leaves the slot \<open>None\<close>. When \<open>get_pbo()\<close> returns a handle, the slot
  holds that handle and calling \<open>get_pbo()\<close> again returns the same handle.
\<close>

theorem pbo_created_once_and_persists:
  "(slot_pbo s = Some b \<longrightarrow>
      slot_pbo (snd (set_pixel_format tbl v s)) = Some b \<and>
      slot_pbo (snd (set_buffer_type t s)) = Some b \<and>
      slot_pbo (snd (set_width w s)) = Some b \<and>
      slot_pbo (snd (set_height h s)) = Some b \<and>
      slot_pbo (snd (set_device_idx i s)) = Some b \<and>
      slot_pbo (snd (resize w h s)) = Some b \<and>
      slot_pbo (snd (map_buffer s)) = Some b \<and>
      slot_pbo (snd (unmap s)) = Some b \<and>
      slot_pbo (snd (get_host_buffer s)) = Some b \<and>
      slot_pbo (snd (get_pbo s)) = Some b \<and>
      gl_names (snd (get_pbo s)) = gl_names s) \<and>
   (fst (get_pbo s) = Inr r \<longrightarrow>
      r \<noteq> None \<and> slot_pbo (snd (get_pbo s)) = r \<and> fst (get_pbo (snd (get_pbo s))) = Inr r) \<and>
   (slot_pbo s0 = None \<and> slot_device s0 = Some d \<longrightarrow>
      slot_pbo (snd (get_pbo s0)) = Some (gl_names s0 + 1) \<and>
      gl_names (snd (get_pbo s0)) = gl_names s0 + 1) \<and>
   slot_pbo (snd (init tbl t v w h i s)) = None \<and>
   gl_names (snd (set_pixel_format tbl v s)) = gl_names s \<and>
   gl_names (snd (set_buffer_type t s)) = gl_names s \<and>
   gl_names (snd (set_width w s)) = gl_names s \<and>
   gl_names (snd (set_height h s)) = gl_names s \<and>
   gl_names (snd (set_device_idx i s)) = gl_names s \<and>
   gl_names (snd (resize w h s)) = gl_names s \<and>
   gl_names (snd (map_buffer s)) = gl_names s \<and>
   gl_names (snd (unmap s)) = gl_names s \<and>
   gl_names (snd (get_host_buffer s)) = gl_names s"
proof -
  have "fst (get_pbo s) = Inr r \<longrightarrow>
      r \<noteq> None \<and> slot_pbo (snd (get_pbo s)) = r \<and> fst (get_pbo (snd (get_pbo s))) = Inr r"
    using get_pbo_success [of s r] get_pbo_twice [of s r] by blast
  moreover have "slot_pbo s = Some b \<longrightarrow>
      slot_pbo (snd (get_pbo s)) = Some b \<and> gl_names (snd (get_pbo s)) = gl_names s"
    using pbo_get_pbo [of s b] by blast
  moreover have "slot_pbo s0 = None \<and> slot_device s0 = Some d \<longrightarrow>
      slot_pbo (snd (get_pbo s0)) = Some (gl_names s0 + 1) \<and>
      gl_names (snd (get_pbo s0)) = gl_names s0 + 1"
    using get_pbo_creates [of s0 d] by blast
  ultimately show ?thesis
    by (simp add: pbo_set_pixel_format pbo_set_buffer_type pbo_set_width pbo_set_height
        pbo_set_device_idx pbo_resize pbo_map_buffer pbo_unmap get_host_buffer_NameError pbo_init)
qed

theorem pbo_created_once_and_persists_witness:
  "slot_pbo example_with_pbo = Some 1 \<and>
   fst (get_pbo example_with_pbo) = Inr (Some 1) \<and>
   (slot_pbo example_controller = None \<and> slot_device example_controller = Some (Device 0)) \<and>
   slot_pbo (snd (set_pixel_format example_formats (ObjStr ''float4'') example_with_pbo)) = Some 1 \<and>
   slot_pbo (snd (set_buffer_type (ObjBufferType GL_INTEROP) example_with_pbo)) = Some 1 \<and>
   slot_pbo (snd (set_device_idx (Some 1) example_with_pbo)) = Some 1 \<and>
   slot_pbo (snd (resize 8 2 example_with_pbo)) = Some 1 \<and>
   slot_pbo (snd (map_buffer example_with_pbo)) = Some 1 \<and>
   slot_pbo (snd (get_pbo example_with_pbo)) = Some 1 \<and>
   gl_names (snd (get_pbo example_with_pbo)) = gl_names example_with_pbo \<and>
   fst (get_pbo (snd (get_pbo example_with_pbo))) = Inr (Some 1) \<and>
   slot_pbo (snd (get_pbo example_controller)) = Some (gl_names example_controller + 1)"
proof -
  have p: "slot_pbo example_with_pbo = Some 1" by code_simp
  have r: "fst (get_pbo example_with_pbo) = Inr (Some 1)" by code_simp
  have n: "slot_pbo example_controller = None \<and> slot_device example_controller = Some (Device 0)"
    by code_simp
  show ?thesis
    using pbo_created_once_and_persists [of example_with_pbo 1 example_formats
        "ObjStr ''float4''" "ObjBufferType GL_INTEROP" 8 2 "Some 1" "Some 1" example_controller
        "Device 0"] p r n
    by blast
qed

text \<open>
  What \<open>get_host_buffer\<close> never reaches: \<open>copy_device_to_host\<close> makes the bytes of the
  host array those of the device array.
\<close>

lemma copy_device_to_host_bytes:
  assumes "slot_host_buffer s = Some hb" and "slot_device_buffer s = Some db"
  shows "fst (copy_device_to_host s) = Inr () \<and>
         map (host_mem (snd (copy_device_to_host s))) [data_ptr hb ..< data_ptr hb + nbytes hb] =
         map (device_mem s) [data_ptr db ..< data_ptr db + nbytes hb]"
  using assms
  by (auto simp add: copy_device_to_host_def memcpyDeviceToHost_def prog_defs list_eq_iff_nth_eq)

end
